theory Spec2Isabelle
  imports Main
begin

section \<open>Inventory service: the two backends of index.js\<close>

text \<open>
  The source holds two variants of the same HTTP service. The first keeps the
  records in a JSON file (\<^verbatim>\<open>inventory.json\<close>, rewritten whole by \<^verbatim>\<open>saveDB\<close>), the
  second in a MySQL table. Every route handler is embedded as a function from the
  request's inputs and the persisted state to the response and the persisted state
  after the call.

  Request fields (\<^verbatim>\<open>req.body.inventory_name\<close>, \<^verbatim>\<open>req.body.description\<close>,
  \<^verbatim>\<open>req.body.includePhoto\<close>, \<^verbatim>\<open>req.file\<close>) are optional strings: \<open>None\<close> is
  JavaScript's \<^verbatim>\<open>undefined\<close> (the key is absent), \<open>Some s\<close> the string sent.
  Form and multipart bodies carry strings only; JSON values of other types are not
  modelled. Strings are lists of bytes: the UTF-8 encoding of the JavaScript string, as
  the request and \<^verbatim>\<open>inventory.json\<close> carry it. Failures of the file system and of the
  database connection are not modelled either: every read and write succeeds.
\<close>

subsection \<open>JavaScript primitives used by the handlers\<close>

text \<open>Truthiness of an optional string: \<^verbatim>\<open>undefined\<close> and \<^verbatim>\<open>""\<close> are falsy.\<close>

fun truthy :: "string option \<Rightarrow> bool" where
  "truthy None = False"
| "truthy (Some s) = (s \<noteq> [])"

text \<open>\<^verbatim>\<open>a || b\<close> where \<open>b\<close> is a string.\<close>

fun or_else :: "string option \<Rightarrow> string \<Rightarrow> string" where
  "or_else None b = b"
| "or_else (Some s) b = (if s = [] then b else s)"

text \<open>
  \<^verbatim>\<open>String.prototype.trim\<close>: white space and line terminators are removed at both
  ends. A string of the model is the UTF-8 encoding of the JavaScript string, so each
  of these characters is a word of one to three bytes: TAB, LF, VT, FF, CR and SPACE,
  then U+00A0, U+1680, U+2000 to U+200A, U+2028, U+2029, U+202F, U+205F, U+3000 and
  U+FEFF. These are the characters of \<^verbatim>\<open>WhiteSpace\<close> (with the category \<^verbatim>\<open>Zs\<close>) and
  \<^verbatim>\<open>LineTerminator\<close>.
\<close>

definition white_space :: "string list" where
  "white_space =
     [[CHR 0x09], [CHR 0x0A], [CHR 0x0B], [CHR 0x0C], [CHR 0x0D], [CHR 0x20],
      [CHR 0xC2, CHR 0xA0],
      [CHR 0xE1, CHR 0x9A, CHR 0x80],
      [CHR 0xE2, CHR 0x80, CHR 0x80], [CHR 0xE2, CHR 0x80, CHR 0x81],
      [CHR 0xE2, CHR 0x80, CHR 0x82], [CHR 0xE2, CHR 0x80, CHR 0x83],
      [CHR 0xE2, CHR 0x80, CHR 0x84], [CHR 0xE2, CHR 0x80, CHR 0x85],
      [CHR 0xE2, CHR 0x80, CHR 0x86], [CHR 0xE2, CHR 0x80, CHR 0x87],
      [CHR 0xE2, CHR 0x80, CHR 0x88], [CHR 0xE2, CHR 0x80, CHR 0x89],
      [CHR 0xE2, CHR 0x80, CHR 0x8A],
      [CHR 0xE2, CHR 0x80, CHR 0xA8], [CHR 0xE2, CHR 0x80, CHR 0xA9],
      [CHR 0xE2, CHR 0x80, CHR 0xAF],
      [CHR 0xE2, CHR 0x81, CHR 0x9F],
      [CHR 0xE3, CHR 0x80, CHR 0x80],
      [CHR 0xEF, CHR 0xBB, CHR 0xBF]]"

text \<open>
  \<open>strip ws s\<close> removes from the beginning of \<open>s\<close> every leading word of \<open>ws\<close>, one
  after the other, until \<open>s\<close> begins with none.
\<close>

function strip :: "string list \<Rightarrow> string \<Rightarrow> string" where
  "strip ws s =
     (case find (\<lambda>w. w \<noteq> [] \<and> take (length w) s = w) ws of
        None \<Rightarrow> s
      | Some w \<Rightarrow> strip ws (drop (length w) s))"
  by pat_completeness auto
termination
proof (relation "measure (\<lambda>(ws, s). length s)")
  show "wf (measure (\<lambda>(ws, s). length s))" by simp
next
  fix ws :: "string list" and s w :: string
  assume "find (\<lambda>w. w \<noteq> [] \<and> take (length w) s = w) ws = Some w"
  then have "w \<noteq> []" and "take (length w) s = w"
    by (auto simp: find_Some_iff)
  then have "s \<noteq> []" by auto
  with \<open>w \<noteq> []\<close> show "((ws, drop (length w) s), (ws, s)) \<in> measure (\<lambda>(ws, s). length s)"
    by simp
qed

declare strip.simps [simp del]

text \<open>The end of the string is trimmed as the beginning of the reversed string.\<close>

definition trim :: "string \<Rightarrow> string" where
  "trim s = rev (strip (map rev white_space) (rev (strip white_space s)))"

text \<open>\<^verbatim>\<open>Number.prototype.toString\<close> on a non-negative integer: its decimal digits.\<close>

definition digit :: "nat \<Rightarrow> char" where
  "digit d = ''0123456789'' ! d"

fun toString :: "nat \<Rightarrow> string" where
  "toString n = (if n < 10 then [digit n] else toString (n div 10) @ [digit (n mod 10)])"

declare toString.simps [simp del]

text \<open>\<^verbatim>\<open>Array.prototype.findIndex\<close>; \<open>None\<close> is the result \<^verbatim>\<open>-1\<close>.\<close>

fun findIndex :: "('a \<Rightarrow> bool) \<Rightarrow> 'a list \<Rightarrow> nat option" where
  "findIndex P [] = None"
| "findIndex P (x # xs) = (if P x then Some 0 else map_option Suc (findIndex P xs))"

text \<open>\<^verbatim>\<open>db.splice(idx, 1)\<close>: the element at \<open>idx\<close> is removed.\<close>

definition splice1 :: "nat \<Rightarrow> 'a list \<Rightarrow> 'a list" where
  "splice1 idx xs = take idx xs @ drop (Suc idx) xs"

subsection \<open>Data model\<close>

text \<open>
  An inventory item. The file backend's id is a string (\<^verbatim>\<open>Date.now().toString()\<close>),
  the table's id is a number, so the record is polymorphic in the id. \<open>photo = None\<close>
  is \<^verbatim>\<open>null\<close>.
\<close>

record 'i item =
  item_id :: 'i
  inventory_name :: string
  description :: string
  photo :: "string option"

text \<open>
  The object the MySQL variant's \<^verbatim>\<open>POST /register\<close> answers with: its
  \<^verbatim>\<open>description\<close> is the request's field as received, \<open>None\<close> when the key is absent.
\<close>

record inserted =
  ins_id :: nat
  ins_inventory_name :: string
  ins_description :: "string option"
  ins_photo :: "string option"

text \<open>Response bodies, and a response as the status code with the body.\<close>

datatype body =
    Item "string item"
  | Items "string item list"
  | Row "nat item"
  | Rows "nat item list"
  | Inserted inserted
  | Error string
  | Message string
  | Text string
  | File string

type_synonym response = "nat \<times> body"

text \<open>The photo directory: the bytes stored under a file name, if the file exists.\<close>

type_synonym photos = "string \<Rightarrow> string option"

subsection \<open>File backend\<close>

text \<open>
  The persisted state is the content of \<^verbatim>\<open>inventory.json\<close>, a list of items.
  \<^verbatim>\<open>loadDB\<close> parses the file into a fresh array, \<^verbatim>\<open>saveDB\<close> replaces the file's content.
\<close>

definition loadDB :: "string item list \<Rightarrow> string item list" where
  "loadDB file = file"

definition saveDB :: "string item list \<Rightarrow> string item list \<Rightarrow> string item list" where
  "saveDB data file = data"

text \<open>
  \<^verbatim>\<open>POST /register\<close>. \<open>now\<close> is the value of \<^verbatim>\<open>Date.now()\<close> at the call, \<open>file_name\<close>
  is \<^verbatim>\<open>req.file.filename\<close> when a photo was uploaded.
\<close>

definition register ::
  "nat \<Rightarrow> string option \<Rightarrow> string option \<Rightarrow> string option \<Rightarrow> string item list
     \<Rightarrow> response \<times> string item list" where
  "register now name descr file_name file =
     (case name of
        None \<Rightarrow> ((400, Error ''inventory_name is required''), file)
      | Some n \<Rightarrow>
          if n = [] \<or> trim n = [] then ((400, Error ''inventory_name is required''), file)
          else
            let db = loadDB file;
                newItem = \<lparr>item_id = toString now, inventory_name = n,
                           description = or_else descr [], photo = file_name\<rparr>;
                db = db @ [newItem]
            in ((201, Item newItem), saveDB db file))"

text \<open>\<^verbatim>\<open>GET /inventory\<close>.\<close>

definition get_inventory :: "string item list \<Rightarrow> response \<times> string item list" where
  "get_inventory file = ((200, Items (loadDB file)), file)"

text \<open>\<^verbatim>\<open>GET /inventory/:id\<close>.\<close>

definition get_item :: "string \<Rightarrow> string item list \<Rightarrow> response \<times> string item list" where
  "get_item i file =
     (case find (\<lambda>x. item_id x = i) (loadDB file) of
        None \<Rightarrow> ((404, Error ''Not found''), file)
      | Some it \<Rightarrow> ((200, Item it), file))"

text \<open>\<^verbatim>\<open>PUT /inventory/:id\<close>.\<close>

definition put_item ::
  "string \<Rightarrow> string option \<Rightarrow> string option \<Rightarrow> string item list
     \<Rightarrow> response \<times> string item list" where
  "put_item i name descr file =
     (let db = loadDB file in
      case findIndex (\<lambda>x. item_id x = i) db of
        None \<Rightarrow> ((404, Error ''Not found''), file)
      | Some idx \<Rightarrow>
          if \<not> truthy name \<and> \<not> truthy descr
          then ((400, Error ''No fields provided for update''), file)
          else
            let db = (case name of None \<Rightarrow> db
                      | Some n \<Rightarrow> db[idx := (db ! idx)\<lparr>inventory_name := n\<rparr>]);
                db = (case descr of None \<Rightarrow> db
                      | Some d \<Rightarrow> db[idx := (db ! idx)\<lparr>description := d\<rparr>])
            in ((200, Item (db ! idx)), saveDB db file))"

text \<open>\<^verbatim>\<open>GET /inventory/:id/photo\<close>. A photo reference that is \<^verbatim>\<open>null\<close> or empty is falsy.\<close>

definition get_photo ::
  "string \<Rightarrow> photos \<Rightarrow> string item list \<Rightarrow> response \<times> string item list" where
  "get_photo i dir file =
     (case find (\<lambda>x. item_id x = i) (loadDB file) of
        None \<Rightarrow> ((404, Text ''Not found''), file)
      | Some it \<Rightarrow>
          (case photo it of
             None \<Rightarrow> ((404, Text ''Not found''), file)
           | Some p \<Rightarrow>
               if p = [] then ((404, Text ''Not found''), file)
               else (case dir p of
                       None \<Rightarrow> ((404, Text ''Photo not found''), file)
                     | Some bytes \<Rightarrow> ((200, File bytes), file))))"

text \<open>\<^verbatim>\<open>PUT /inventory/:id/photo\<close>.\<close>

definition put_photo ::
  "string \<Rightarrow> string option \<Rightarrow> string item list \<Rightarrow> response \<times> string item list" where
  "put_photo i file_name file =
     (let db = loadDB file in
      case findIndex (\<lambda>x. item_id x = i) db of
        None \<Rightarrow> ((404, Error ''Not found''), file)
      | Some idx \<Rightarrow>
          (case file_name of
             None \<Rightarrow> ((400, Error ''Photo missing''), file)
           | Some f \<Rightarrow>
               let db = db[idx := (db ! idx)\<lparr>photo := Some f\<rparr>]
               in ((200, Message ''Photo updated''), saveDB db file)))"

text \<open>
  \<^verbatim>\<open>POST /search\<close>. The id comes from the form body and may be absent; the template
  string renders it. The handler changes the description of the object it loaded and
  never calls \<^verbatim>\<open>saveDB\<close>.
\<close>

definition photo_note :: "string \<Rightarrow> string" where
  "photo_note i = CHR 0x0A # ''Photo: /inventory/'' @ i @ ''/photo''"

definition search ::
  "string option \<Rightarrow> string option \<Rightarrow> string item list \<Rightarrow> response \<times> string item list" where
  "search i includePhoto file =
     (let db = loadDB file in
      case i of
        None \<Rightarrow> ((404, Text ''Not found''), file)
      | Some i' \<Rightarrow>
          (case find (\<lambda>x. item_id x = i') db of
             None \<Rightarrow> ((404, Text ''Not found''), file)
           | Some it \<Rightarrow>
               let it = (if truthy includePhoto
                         then it\<lparr>description := description it @ photo_note i'\<rparr>
                         else it)
               in ((200, Item it), file)))"

text \<open>
  \<^verbatim>\<open>DELETE /inventory/:id\<close>. Both sides of the comparison are strings here, so
  \<^verbatim>\<open>String(...)\<close> leaves them as they are.
\<close>

definition delete_item :: "string \<Rightarrow> string item list \<Rightarrow> response \<times> string item list" where
  "delete_item i file =
     (let db = loadDB file in
      case findIndex (\<lambda>x. item_id x = i) db of
        None \<Rightarrow> ((404, Error (''Item with id '' @ i @ '' not found'')), file)
      | Some idx \<Rightarrow>
          let db = splice1 idx db
          in ((200, Message (''Item with id '' @ i @ '' deleted'')), saveDB db file))"

subsection \<open>MySQL backend\<close>

text \<open>
  Modelled from the spec: the table \<^verbatim>\<open>inventory(id, inventory_name, description, photo)\<close>,
  whose declaration is not part of the source. The store assigns an auto-incrementing
  integer id; rows are listed in insertion order. The state is the rows and the next
  id the store will assign.
\<close>

record table =
  rows :: "nat item list"
  next_id :: nat

text \<open>
  Modelled from the spec: \<^verbatim>\<open>INSERT INTO inventory (inventory_name, description, photo)\<close>.
  The result is \<^verbatim>\<open>insertId\<close> and the table with the row appended.
\<close>

definition sql_insert :: "string \<Rightarrow> string \<Rightarrow> string option \<Rightarrow> table \<Rightarrow> nat \<times> table" where
  "sql_insert n d p t =
     (next_id t,
      \<lparr>rows = rows t @ [\<lparr>item_id = next_id t, inventory_name = n, description = d, photo = p\<rparr>],
       next_id = Suc (next_id t)\<rparr>)"

text \<open>Modelled from the spec: \<^verbatim>\<open>SELECT * FROM inventory\<close>.\<close>

definition sql_select_all :: "table \<Rightarrow> nat item list" where
  "sql_select_all t = rows t"

text \<open>
  Modelled from the spec: \<^verbatim>\<open>SELECT * FROM inventory WHERE id = ?\<close>. The path parameter
  is taken as the number it denotes.
\<close>

definition sql_select :: "nat \<Rightarrow> table \<Rightarrow> nat item list" where
  "sql_select i t = filter (\<lambda>r. item_id r = i) (rows t)"

text \<open>
  Modelled from the spec:
  \<^verbatim>\<open>UPDATE inventory SET inventory_name = ?, description = ? WHERE id = ?\<close>.
\<close>

definition sql_update :: "string \<Rightarrow> string \<Rightarrow> nat \<Rightarrow> table \<Rightarrow> table" where
  "sql_update n d i t =
     t\<lparr>rows := map (\<lambda>r. if item_id r = i then r\<lparr>inventory_name := n, description := d\<rparr> else r)
                  (rows t)\<rparr>"

text \<open>Modelled from the spec: \<^verbatim>\<open>UPDATE inventory SET photo = ? WHERE id = ?\<close>.\<close>

definition sql_update_photo :: "string \<Rightarrow> nat \<Rightarrow> table \<Rightarrow> table" where
  "sql_update_photo f i t =
     t\<lparr>rows := map (\<lambda>r. if item_id r = i then r\<lparr>photo := Some f\<rparr> else r) (rows t)\<rparr>"

text \<open>Modelled from the spec: \<^verbatim>\<open>DELETE FROM inventory WHERE id = ?\<close>.\<close>

definition sql_delete :: "nat \<Rightarrow> table \<Rightarrow> table" where
  "sql_delete i t = t\<lparr>rows := filter (\<lambda>r. item_id r \<noteq> i) (rows t)\<rparr>"

text \<open>\<^verbatim>\<open>POST /register\<close> (the query is taken to succeed; a failing query answers 500).\<close>

definition register_sql ::
  "string option \<Rightarrow> string option \<Rightarrow> string option \<Rightarrow> table \<Rightarrow> response \<times> table" where
  "register_sql name descr file_name t =
     (case name of
        None \<Rightarrow> ((400, Error ''inventory_name is required''), t)
      | Some n \<Rightarrow>
          if n = [] then ((400, Error ''inventory_name is required''), t)
          else
            let (insertId, t') = sql_insert n (or_else descr []) file_name t;
                inserted = \<lparr>ins_id = insertId, ins_inventory_name = n,
                            ins_description = descr, ins_photo = file_name\<rparr>
            in ((201, Inserted inserted), t'))"

text \<open>\<^verbatim>\<open>GET /inventory\<close>.\<close>

definition get_inventory_sql :: "table \<Rightarrow> response \<times> table" where
  "get_inventory_sql t = ((200, Rows (sql_select_all t)), t)"

text \<open>\<^verbatim>\<open>GET /inventory/:id\<close>.\<close>

definition get_item_sql :: "nat \<Rightarrow> table \<Rightarrow> response \<times> table" where
  "get_item_sql i t =
     (case sql_select i t of
        [] \<Rightarrow> ((404, Error ''Not found''), t)
      | r # _ \<Rightarrow> ((200, Row r), t))"

text \<open>\<^verbatim>\<open>PUT /inventory/:id\<close>.\<close>

definition put_item_sql ::
  "nat \<Rightarrow> string option \<Rightarrow> string option \<Rightarrow> table \<Rightarrow> response \<times> table" where
  "put_item_sql i name descr t =
     (case sql_select i t of
        [] \<Rightarrow> ((404, Error ''Not found''), t)
      | r # _ \<Rightarrow>
          ((200, Message ''Updated''),
           sql_update (or_else name (inventory_name r)) (or_else descr (description r)) i t))"

text \<open>\<^verbatim>\<open>GET /inventory/:id/photo\<close>.\<close>

definition get_photo_sql :: "nat \<Rightarrow> photos \<Rightarrow> table \<Rightarrow> response \<times> table" where
  "get_photo_sql i dir t =
     (case sql_select i t of
        [] \<Rightarrow> ((404, Text ''Photo not found''), t)
      | r # _ \<Rightarrow>
          (case photo r of
             None \<Rightarrow> ((404, Text ''Photo not found''), t)
           | Some p \<Rightarrow>
               if p = [] then ((404, Text ''Photo not found''), t)
               else (case dir p of
                       None \<Rightarrow> ((404, Text ''File missing''), t)
                     | Some bytes \<Rightarrow> ((200, File bytes), t))))"

text \<open>\<^verbatim>\<open>PUT /inventory/:id/photo\<close>.\<close>

definition put_photo_sql :: "nat \<Rightarrow> string option \<Rightarrow> table \<Rightarrow> response \<times> table" where
  "put_photo_sql i file_name t =
     (case file_name of
        None \<Rightarrow> ((400, Error ''Missing file''), t)
      | Some f \<Rightarrow>
          (case sql_select i t of
             [] \<Rightarrow> ((404, Error ''Not found''), t)
           | _ # _ \<Rightarrow> ((200, Message ''Photo updated''), sql_update_photo f i t)))"

text \<open>\<^verbatim>\<open>DELETE /inventory/:id\<close>.\<close>

definition delete_item_sql :: "nat \<Rightarrow> table \<Rightarrow> response \<times> table" where
  "delete_item_sql i t =
     (case sql_select i t of
        [] \<Rightarrow> ((404, Error ''Not found''), t)
      | _ # _ \<Rightarrow> ((200, Message ''Deleted''), sql_delete i t))"

subsection \<open>Sequences of Create calls\<close>

text \<open>
  A Create request of the file backend is the clock reading at the call with the three
  inputs of \<^verbatim>\<open>POST /register\<close>; the MySQL variant reads no clock. The requests are
  served one after the other, each on the state the previous one left; the responses
  are collected in order.
\<close>

type_synonym create_request = "nat \<times> string option \<times> string option \<times> string option"

fun register_all ::
  "create_request list \<Rightarrow> string item list \<Rightarrow> response list \<times> string item list" where
  "register_all [] file = ([], file)"
| "register_all ((now, name, descr, file_name) # reqs) file =
     (let (r, file') = register now name descr file_name file;
          (rs, file'') = register_all reqs file'
      in (r # rs, file''))"

fun register_all_sql ::
  "create_request list \<Rightarrow> table \<Rightarrow> response list \<times> table" where
  "register_all_sql [] t = ([], t)"
| "register_all_sql ((now, name, descr, file_name) # reqs) t =
     (let (r, t') = register_sql name descr file_name t;
          (rs, t'') = register_all_sql reqs t'
      in (r # rs, t''))"

text \<open>
  A request whose name passes the guard of the file backend's \<^verbatim>\<open>POST /register\<close>:
  present, and not empty once trimmed.
\<close>

fun valid_name :: "create_request \<Rightarrow> bool" where
  "valid_name (now, None, descr, file_name) = False"
| "valid_name (now, Some n, descr, file_name) = (trim n \<noteq> [])"

text \<open>The row the MySQL variant stores for the object its \<^verbatim>\<open>POST /register\<close> answered with.\<close>

definition stored_row :: "inserted \<Rightarrow> nat item" where
  "stored_row ins =
     \<lparr>item_id = ins_id ins, inventory_name = ins_inventory_name ins,
      description = or_else (ins_description ins) [], photo = ins_photo ins\<rparr>"

subsection \<open>Concrete states used in the examples\<close>

definition drill :: "string item" where
  "drill = \<lparr>item_id = ''1762000000000'', inventory_name = ''Drill'',
            description = ''cordless'', photo = None\<rparr>"

definition saw :: "string item" where
  "saw = \<lparr>item_id = ''1762000000000'', inventory_name = ''Saw'',
          description = '''', photo = Some ''a3f1''\<rparr>"

definition drill_row :: "nat item" where
  "drill_row = \<lparr>item_id = 1, inventory_name = ''Drill'',
                description = ''cordless'', photo = None\<rparr>"

definition empty_table :: table where
  "empty_table = \<lparr>rows = [], next_id = 1\<rparr>"

definition one_row :: table where
  "one_row = \<lparr>rows = [drill_row], next_id = 2\<rparr>"

definition one_photo :: photos where
  "one_photo = (\<lambda>f. if f = ''a3f1'' then Some ''JFIF'' else None)"

definition two_requests :: "create_request list" where
  "two_requests =
     [(1762000000000, Some ''Drill'', None, None),
      (1762000000001, Some ''Saw'', Some ''hand saw'', Some ''a3f1'')]"

section \<open>Properties\<close>

subsection \<open>Facts about the primitives\<close>

lemma findIndex_None: "findIndex P xs = None \<longleftrightarrow> (\<forall>x \<in> set xs. \<not> P x)"
  by (induction xs) auto

lemma findIndex_Some:
  "findIndex P xs = Some k \<Longrightarrow> k < length xs \<and> P (xs ! k) \<and> (\<forall>j < k. \<not> P (xs ! j))"
proof (induction xs arbitrary: k)
  case Nil
  then show ?case by simp
next
  case (Cons x xs)
  then show ?case
    by (auto split: if_splits simp: nth_Cons split: nat.splits)
qed

lemma findIndex_exists: "length (filter P xs) = 1 \<Longrightarrow> \<exists>k. findIndex P xs = Some k"
proof -
  assume "length (filter P xs) = 1"
  then have "filter P xs \<noteq> []" by auto
  then have "\<not> (\<forall>x \<in> set xs. \<not> P x)" by (simp add: filter_empty_conv)
  then have "findIndex P xs \<noteq> None" by (simp add: findIndex_None)
  then show ?thesis by auto
qed

lemma find_None: "find P xs = None \<longleftrightarrow> (\<forall>x \<in> set xs. \<not> P x)"
  by (induction xs) auto

text \<open>
  Removing the first element that satisfies \<open>P\<close> removes every such element when there
  is exactly one.
\<close>

lemma splice1_first:
  "findIndex P xs = Some k \<Longrightarrow> length (filter P xs) = 1 \<Longrightarrow>
     splice1 k xs = filter (\<lambda>x. \<not> P x) xs"
proof (induction xs arbitrary: k)
  case Nil
  then show ?case by simp
next
  case (Cons x xs)
  show ?case
  proof (cases "P x")
    case True
    with Cons.prems have "filter P xs = []" by simp
    then have "filter (\<lambda>x. \<not> P x) xs = xs"
      by (simp add: filter_empty_conv)
    with True Cons.prems show ?thesis by (simp add: splice1_def)
  next
    case False
    with Cons.prems obtain k' where k': "findIndex P xs = Some k'" "k = Suc k'"
      by auto
    with False Cons.prems Cons.IH[of k'] show ?thesis
      by (simp add: splice1_def)
  qed
qed

lemma strip_Nil: "strip ws [] = []"
proof -
  have "find (\<lambda>w. w \<noteq> [] \<and> take (length w) [] = w) ws = None"
    by (auto simp: find_None_iff)
  then show ?thesis by (simp add: strip.simps[of ws "[]"])
qed

lemma trim_Nil: "trim [] = []"
  by (simp add: trim_def strip_Nil)

text \<open>The first byte of a white-space word tells its length.\<close>

lemma white_space_length:
  "\<forall>w \<in> set white_space. w \<noteq> [] \<and>
     length w = (if hd w \<in> {CHR 0xE1, CHR 0xE2, CHR 0xE3, CHR 0xEF} then 3
                 else if hd w = CHR 0xC2 then 2 else 1)"
  by (simp add: white_space_def)

text \<open>No white-space word is the beginning of another.\<close>

lemma white_space_prefix_free:
  assumes "w \<in> set white_space" and "w' \<in> set white_space"
    and "take (length w') (w @ r) = w'"
  shows "w' = w"
proof -
  from assms(1,2) white_space_length have ne: "w \<noteq> []" "w' \<noteq> []" by auto
  from ne assms(3) have "hd w' = hd (take (length w') (w @ r))" by simp
  also from ne have "\<dots> = hd w" by (cases w; cases w') auto
  finally have "hd w' = hd w" .
  with assms(1,2) white_space_length have "length w' = length w" by auto
  with assms(3) show ?thesis by simp
qed

lemma strip_white_space_word:
  assumes "w \<in> set white_space"
  shows "strip white_space (w @ r) = strip white_space r"
proof -
  from assms white_space_length have ne: "w \<noteq> []" by auto
  with assms have "find (\<lambda>v. v \<noteq> [] \<and> take (length v) (w @ r) = v) white_space \<noteq> None"
    by (auto simp: find_None_iff)
  then obtain w' where f: "find (\<lambda>v. v \<noteq> [] \<and> take (length v) (w @ r) = v) white_space = Some w'"
    by auto
  then have "w' \<in> set white_space" and "take (length w') (w @ r) = w'"
    by (auto simp: find_Some_iff)
  with assms have "w' = w" by (simp add: white_space_prefix_free)
  with f show ?thesis
    by (simp add: strip.simps[of white_space "w @ r"])
qed

text \<open>A string made of white-space characters only trims to the empty string.\<close>

lemma trim_blank:
  assumes "list_all (\<lambda>w. w \<in> set white_space) wss"
  shows "trim (concat wss) = []"
proof -
  from assms have "strip white_space (concat wss) = []"
    by (induction wss) (simp_all add: strip_Nil strip_white_space_word)
  then show ?thesis
    by (simp add: trim_def strip_Nil)
qed

lemma digit_inj: "a < 10 \<Longrightarrow> b < 10 \<Longrightarrow> digit a = digit b \<Longrightarrow> a = b"
  by (auto simp: digit_def numeral_eq_Suc less_Suc_eq)

lemma toString_ne: "toString n \<noteq> []"
  by (subst toString.simps) simp

text \<open>Different numbers have different decimal renderings.\<close>

lemma toString_inj: "toString a = toString b \<Longrightarrow> a = b"
proof (induction a arbitrary: b rule: toString.induct)
  case (1 n)
  show ?case
  proof (cases "n < 10")
    case small: True
    show ?thesis
    proof (cases "b < 10")
      case True
      with small 1(2) show ?thesis
        by (simp add: toString.simps[of n] toString.simps[of b] digit_inj)
    next
      case False
      with small 1(2) toString_ne[of "b div 10"] show ?thesis
        by (simp add: toString.simps[of n] toString.simps[of b])
    qed
  next
    case big: False
    show ?thesis
    proof (cases "b < 10")
      case True
      with big 1(2) toString_ne[of "n div 10"] show ?thesis
        by (simp add: toString.simps[of n] toString.simps[of b])
    next
      case False
      with big 1(2) have eq: "toString (n div 10) = toString (b div 10)"
        and d: "digit (n mod 10) = digit (b mod 10)"
        by (simp_all add: toString.simps[of n] toString.simps[of b])
      from 1(1)[OF big eq] have q: "n div 10 = b div 10" .
      from d have r: "n mod 10 = b mod 10"
        by (rule digit_inj[rotated 2]) simp_all
      from q r show ?thesis
        by (metis div_mult_mod_eq)
    qed
  qed
qed

subsection \<open>Create\<close>

text \<open>
  File backend: a name that is not empty once trimmed is accepted, and the record
  stored is the item returned, appended to the collection.
\<close>

lemma register_valid:
  assumes "trim n \<noteq> []"
  shows "register now (Some n) descr file_name fl =
           ((201, Item \<lparr>item_id = toString now, inventory_name = n,
                        description = or_else descr [], photo = file_name\<rparr>),
            fl @ [\<lparr>item_id = toString now, inventory_name = n,
                   description = or_else descr [], photo = file_name\<rparr>])"
proof -
  from assms have "n \<noteq> []" using trim_Nil by auto
  with assms show ?thesis
    by (simp add: register_def loadDB_def saveDB_def Let_def)
qed

text \<open>File backend: an absent name and a name of white space only are refused.\<close>

lemma register_absent:
  "register now None descr file_name fl = ((400, Error ''inventory_name is required''), fl)"
  by (simp add: register_def)

lemma register_blank:
  assumes "list_all (\<lambda>w. w \<in> set white_space) wss"
  shows "register now (Some (concat wss)) descr file_name fl =
           ((400, Error ''inventory_name is required''), fl)"
  using trim_blank[OF assms] by (simp add: register_def)

text \<open>For one: a name of three spaces, and a name that is one NO-BREAK SPACE.\<close>

lemma register_blank_examples:
  "register now (Some ''   '') descr file_name fl =
     ((400, Error ''inventory_name is required''), fl) \<and>
   register now (Some [CHR 0xC2, CHR 0xA0]) descr file_name fl =
     ((400, Error ''inventory_name is required''), fl)"
  by (simp add: register_def trim_def strip.simps white_space_def)

text \<open>File backend: what a successful Create returns and stores.\<close>

lemma register_populated:
  assumes "register now name descr file_name fl = ((201, Item it), fl')"
  shows "item_id it = toString now \<and> name = Some (inventory_name it) \<and>
         description it = or_else descr [] \<and> photo it = file_name \<and> fl' = fl @ [it]"
  using assms
  by (auto simp: register_def loadDB_def saveDB_def Let_def split: option.splits if_splits)

text \<open>MySQL backend: every non-empty name is accepted.\<close>

lemma register_sql_truthy:
  assumes "n \<noteq> []"
  shows "register_sql (Some n) descr file_name t =
           ((201, Inserted \<lparr>ins_id = next_id t, ins_inventory_name = n,
                            ins_description = descr, ins_photo = file_name\<rparr>),
            \<lparr>rows = rows t @ [\<lparr>item_id = next_id t, inventory_name = n,
                                description = or_else descr [], photo = file_name\<rparr>],
             next_id = Suc (next_id t)\<rparr>)"
  using assms by (simp add: register_sql_def sql_insert_def)

text \<open>
  C4. A name that is empty or white space only must be refused with 400 and nothing
  stored. The file backend does so (\<open>register_absent\<close>, \<open>register_blank\<close>). The MySQL
  backend tests \<^verbatim>\<open>!inventory_name\<close> only: for the name of three spaces it answers 201
  and inserts the row.
\<close>

theorem register_sql_accepts_blank_name:
  "register_sql (Some ''   '') None None empty_table =
     ((201, Inserted \<lparr>ins_id = 1, ins_inventory_name = ''   '',
                      ins_description = None, ins_photo = None\<rparr>),
      \<lparr>rows = [\<lparr>item_id = 1, inventory_name = ''   '', description = '''', photo = None\<rparr>],
       next_id = 2\<rparr>)"
  by (simp add: register_sql_def sql_insert_def empty_table_def)

text \<open>
  C7. A successful Create must return the item fully populated, the description being
  the empty string when none was given. The file backend does so
  (\<open>register_populated\<close>). The MySQL backend stores \<^verbatim>\<open>description || ""\<close> and answers
  with the request's own \<^verbatim>\<open>description\<close>: with no description given, the row holds the
  empty string and the object returned has no description.
\<close>

theorem register_sql_omits_description:
  "register_sql (Some ''Drill'') None None empty_table =
     ((201, Inserted \<lparr>ins_id = 1, ins_inventory_name = ''Drill'',
                      ins_description = None, ins_photo = None\<rparr>),
      \<lparr>rows = [\<lparr>item_id = 1, inventory_name = ''Drill'', description = '''', photo = None\<rparr>],
       next_id = 2\<rparr>)"
  by (simp add: register_sql_def sql_insert_def empty_table_def)

subsection \<open>Identity\<close>

text \<open>
  File backend: the ids of a run of Creates with valid names are the decimal
  renderings of the clock readings, so they differ pairwise when the readings do.
\<close>

lemma register_all_ids:
  "list_all valid_name reqs \<Longrightarrow>
     map item_id (snd (register_all reqs fl)) = map item_id fl @ map (\<lambda>r. toString (fst r)) reqs"
proof (induction reqs arbitrary: fl)
  case Nil
  then show ?case by simp
next
  case (Cons req reqs)
  obtain now name descr file_name where req: "req = (now, name, descr, file_name)"
    by (cases req) auto
  from Cons.prems req obtain n where n: "name = Some n" "trim n \<noteq> []"
    by (cases name) auto
  from Cons.prems have "list_all valid_name reqs" by simp
  from Cons.IH[OF this] show ?case
    by (simp add: req n register_valid[OF n(2)] case_prod_beta)
qed

lemma register_all_distinct_ids:
  assumes "list_all valid_name reqs" and "distinct (map fst reqs)"
  shows "distinct (map item_id (snd (register_all reqs [])))"
proof -
  have "inj_on toString (set (map fst reqs))"
    by (rule inj_onI) (rule toString_inj)
  with assms(2) have "distinct (map toString (map fst reqs))"
    by (simp only: distinct_map simp_thms)
  then show ?thesis
    by (simp add: register_all_ids[OF assms(1)] comp_def)
qed

text \<open>
  MySQL backend: the ids stay below the next id the store assigns, so every Create
  gets an id no row has.
\<close>

lemma register_sql_ids:
  assumes "\<forall>r \<in> set (rows t). item_id r < next_id t"
    and "distinct (map item_id (rows t))"
  shows "(\<forall>r \<in> set (rows (snd (register_sql name descr file_name t))).
            item_id r < next_id (snd (register_sql name descr file_name t))) \<and>
         distinct (map item_id (rows (snd (register_sql name descr file_name t))))"
  using assms
  by (auto simp: register_sql_def sql_insert_def less_Suc_eq split: option.splits)

lemma register_all_sql_ids:
  assumes "\<forall>r \<in> set (rows t). item_id r < next_id t"
    and "distinct (map item_id (rows t))"
  shows "(\<forall>r \<in> set (rows (snd (register_all_sql reqs t))).
            item_id r < next_id (snd (register_all_sql reqs t))) \<and>
         distinct (map item_id (rows (snd (register_all_sql reqs t))))"
  using assms
proof (induction reqs arbitrary: t)
  case Nil
  then show ?case by simp
next
  case (Cons req reqs)
  obtain now name descr file_name where req: "req = (now, name, descr, file_name)"
    by (cases req) auto
  define t1 where "t1 = snd (register_sql name descr file_name t)"
  from register_sql_ids[OF Cons.prems, of name descr file_name]
  have "\<forall>r \<in> set (rows t1). item_id r < next_id t1" and "distinct (map item_id (rows t1))"
    by (simp_all add: t1_def)
  from Cons.IH[OF this] show ?case
    by (simp add: req t1_def case_prod_beta)
qed

lemma register_all_sql_distinct_ids:
  "distinct (map item_id (rows (snd (register_all_sql reqs \<lparr>rows = [], next_id = k\<rparr>))))"
  using register_all_sql_ids[of "\<lparr>rows = [], next_id = k\<rparr>" reqs] by simp

text \<open>
  C1. Every Create must return an id that differs from the id of every item created
  before. The MySQL backend does so (\<open>register_all_sql_distinct_ids\<close>). The file backend
  takes the id from the clock, in milliseconds: two Creates served at the same reading
  get the same id, and both records are stored.
\<close>

theorem register_same_clock_same_id:
  "register 1762000000000 (Some ''Saw'') None None
     (snd (register 1762000000000 (Some ''Drill'') None None [])) =
   ((201, Item \<lparr>item_id = ''1762000000000'', inventory_name = ''Saw'',
                description = '''', photo = None\<rparr>),
    [\<lparr>item_id = ''1762000000000'', inventory_name = ''Drill'',
       description = '''', photo = None\<rparr>,
     \<lparr>item_id = ''1762000000000'', inventory_name = ''Saw'',
       description = '''', photo = None\<rparr>])"
  by (simp add: register_def loadDB_def saveDB_def trim_def strip.simps white_space_def toString.simps
      digit_def Let_def)

subsection \<open>Update\<close>

text \<open>
  File backend: an update that passes the guard overwrites the fields that are present
  in the request and no other; the id, the photo and the other records stay.
\<close>

lemma put_item_frame:
  assumes "findIndex (\<lambda>x. item_id x = i) fl = Some idx"
    and "truthy name \<or> truthy descr"
  shows "put_item i name descr fl =
           ((200, Item ((fl ! idx)
                   \<lparr>inventory_name := (case name of None \<Rightarrow> inventory_name (fl ! idx) | Some n \<Rightarrow> n),
                    description := (case descr of None \<Rightarrow> description (fl ! idx) | Some d \<Rightarrow> d)\<rparr>)),
            fl[idx := (fl ! idx)
                   \<lparr>inventory_name := (case name of None \<Rightarrow> inventory_name (fl ! idx) | Some n \<Rightarrow> n),
                    description := (case descr of None \<Rightarrow> description (fl ! idx) | Some d \<Rightarrow> d)\<rparr>])"
proof -
  from findIndex_Some[OF assms(1)] have "idx < length fl" by simp
  with assms show ?thesis
    by (auto simp: put_item_def loadDB_def saveDB_def Let_def split: option.splits)
qed

text \<open>
  File backend: with the name and the description both absent or empty, the update of
  an existing item is refused and the collection stays as it was.
\<close>

lemma put_item_no_fields:
  assumes "findIndex (\<lambda>x. item_id x = i) fl = Some idx"
    and "\<not> truthy name" and "\<not> truthy descr"
  shows "put_item i name descr fl = ((400, Error ''No fields provided for update''), fl)"
  using assms by (simp add: put_item_def loadDB_def)

text \<open>MySQL backend: an update keeps every name non-empty.\<close>

lemma put_item_sql_keeps_names:
  assumes "\<forall>r \<in> set (rows t). inventory_name r \<noteq> []"
  shows "\<forall>r \<in> set (rows (snd (put_item_sql k name descr t))). inventory_name r \<noteq> []"
proof (cases "sql_select k t")
  case Nil
  with assms show ?thesis by (simp add: put_item_sql_def)
next
  case (Cons r rs)
  then have "r \<in> set (sql_select k t)" by simp
  then have "r \<in> set (rows t)"
    by (simp add: sql_select_def)
  with assms have "inventory_name r \<noteq> []" by blast
  then have "or_else name (inventory_name r) \<noteq> []"
    by (cases name) auto
  with assms Cons show ?thesis
    by (auto simp: put_item_sql_def sql_update_def)
qed

text \<open>
  C2. Only the fields supplied are overwritten, and an empty description that is
  supplied is a real update, distinct from an absent one. The first part holds
  (\<open>put_item_frame\<close>). The second does not: the MySQL backend writes
  \<^verbatim>\<open>description || rows[0].description\<close>, so an empty description leaves the stored one
  in place, alone or beside a new name; the file backend assigns every field that is not
  \<^verbatim>\<open>undefined\<close>, but its guard \<^verbatim>\<open>!inventory_name && !description\<close> refuses a request
  whose only field is an empty description.
\<close>

theorem put_item_empty_description_not_stored:
  "put_item_sql 1 None (Some '''') one_row = ((200, Message ''Updated''), one_row) \<and>
   put_item_sql 1 (Some ''Hammer'') (Some '''') one_row =
     ((200, Message ''Updated''),
      \<lparr>rows = [\<lparr>item_id = 1, inventory_name = ''Hammer'', description = ''cordless'',
                 photo = None\<rparr>],
       next_id = 2\<rparr>) \<and>
   put_item ''1762000000000'' None (Some '''') [drill] =
     ((400, Error ''No fields provided for update''), [drill])"
  by (simp add: put_item_sql_def sql_select_def sql_update_def one_row_def drill_row_def
      put_item_def loadDB_def drill_def)

text \<open>
  C3. An update with the name and the description both absent or empty must fail with
  400. The file backend does so (\<open>put_item_no_fields\<close>). The MySQL backend has no such
  check: it answers 200 and rewrites the row with the values it had.
\<close>

theorem put_item_sql_no_fields_succeeds:
  "put_item_sql 1 None None one_row = ((200, Message ''Updated''), one_row) \<and>
   put_item_sql 1 (Some '''') (Some '''') one_row = ((200, Message ''Updated''), one_row)"
  by (simp add: put_item_sql_def sql_select_def sql_update_def one_row_def drill_row_def)

text \<open>
  C6. No operation may store a record whose name is empty. The file backend's update
  is guarded by \<^verbatim>\<open>!inventory_name && !description\<close> and then assigns every field that is
  not \<^verbatim>\<open>undefined\<close>: an empty name sent with a non-empty description passes the guard
  and is stored. The MySQL backend's update keeps the old name in that case
  (\<open>put_item_sql_keeps_names\<close>).
\<close>

theorem put_item_stores_empty_name:
  "put_item ''1762000000000'' (Some '''') (Some ''x'') [drill] =
     ((200, Item \<lparr>item_id = ''1762000000000'', inventory_name = '''', description = ''x'',
                  photo = None\<rparr>),
      [\<lparr>item_id = ''1762000000000'', inventory_name = '''', description = ''x'',
         photo = None\<rparr>])"
  by (simp add: put_item_def loadDB_def saveDB_def drill_def)

text \<open>File backend: Create, SetPhoto and Delete keep every stored name non-empty.\<close>

lemma register_keeps_names:
  assumes "\<forall>x \<in> set fl. inventory_name x \<noteq> []"
  shows "\<forall>x \<in> set (snd (register now name descr file_name fl)). inventory_name x \<noteq> []"
  using assms
  by (auto simp: register_def loadDB_def saveDB_def Let_def split: option.splits if_splits)

lemma put_photo_keeps_names:
  assumes "\<forall>x \<in> set fl. inventory_name x \<noteq> []"
  shows "\<forall>x \<in> set (snd (put_photo i file_name fl)). inventory_name x \<noteq> []"
proof (cases "findIndex (\<lambda>x. item_id x = i) fl")
  case None
  with assms show ?thesis by (simp add: put_photo_def loadDB_def)
next
  case (Some idx)
  from findIndex_Some[OF Some] have "idx < length fl" by simp
  then have "fl ! idx \<in> set fl" by simp
  with assms have "inventory_name (fl ! idx) \<noteq> []" by blast
  with assms Some show ?thesis
    by (auto simp: put_photo_def loadDB_def saveDB_def split: option.splits
        dest!: set_update_subset_insert[THEN subsetD])
qed

lemma delete_item_keeps_names:
  assumes "\<forall>x \<in> set fl. inventory_name x \<noteq> []"
  shows "\<forall>x \<in> set (snd (delete_item i fl)). inventory_name x \<noteq> []"
  using assms
  by (auto simp: delete_item_def loadDB_def saveDB_def splice1_def split: option.splits
      dest: in_set_takeD in_set_dropD)

subsection \<open>Delete\<close>

lemma delete_item_once:
  assumes "length (filter (\<lambda>x. item_id x = i) fl) = 1"
  shows "delete_item i fl =
           ((200, Message (''Item with id '' @ i @ '' deleted'')),
            filter (\<lambda>x. item_id x \<noteq> i) fl)"
proof -
  from findIndex_exists[OF assms] obtain k
    where k: "findIndex (\<lambda>x. item_id x = i) fl = Some k" ..
  from splice1_first[OF k assms] k show ?thesis
    by (simp add: delete_item_def loadDB_def saveDB_def)
qed

lemma findIndex_filter_None: "findIndex P (filter (\<lambda>x. \<not> P x) xs) = None"
  by (simp add: findIndex_None)

lemma find_filter_None: "find P (filter (\<lambda>x. \<not> P x) xs) = None"
  by (simp add: find_None)

lemma delete_item_absent:
  "delete_item i (filter (\<lambda>x. item_id x \<noteq> i) fl) =
     ((404, Error (''Item with id '' @ i @ '' not found'')), filter (\<lambda>x. item_id x \<noteq> i) fl)"
  by (simp add: delete_item_def loadDB_def findIndex_filter_None)

lemma get_item_absent:
  "get_item i (filter (\<lambda>x. item_id x \<noteq> i) fl) =
     ((404, Error ''Not found''), filter (\<lambda>x. item_id x \<noteq> i) fl)"
  by (simp add: get_item_def loadDB_def find_filter_None)

lemma sql_select_deleted: "sql_select k (sql_delete k t) = []"
  by (simp add: sql_select_def sql_delete_def)

lemma delete_item_sql_present:
  assumes "k \<in> item_id ` set (rows t)"
  shows "delete_item_sql k t = ((200, Message ''Deleted''), sql_delete k t)"
proof -
  from assms have "sql_select k t \<noteq> []"
    by (auto simp: sql_select_def filter_empty_conv)
  then show ?thesis
    by (simp add: delete_item_sql_def split: list.splits)
qed

text \<open>
  Where exactly one stored record carries the id, Delete answers 200 and removes that
  record and no other, a following GetByID fails with 404, and a second Delete fails
  with 404 and changes nothing. In the MySQL backend the same holds for every id that
  a row carries.
\<close>

lemma delete_then_not_found:
  assumes "length (filter (\<lambda>x. item_id x = i) fl) = 1"
    and "k \<in> item_id ` set (rows t)"
  shows "(let fl' = snd (delete_item i fl) in
            fst (delete_item i fl) = (200, Message (''Item with id '' @ i @ '' deleted'')) \<and>
            fl' = filter (\<lambda>x. item_id x \<noteq> i) fl \<and>
            get_item i fl' = ((404, Error ''Not found''), fl') \<and>
            delete_item i fl' = ((404, Error (''Item with id '' @ i @ '' not found'')), fl'))
       \<and> (let t' = snd (delete_item_sql k t) in
            fst (delete_item_sql k t) = (200, Message ''Deleted'') \<and>
            rows t' = filter (\<lambda>r. item_id r \<noteq> k) (rows t) \<and>
            get_item_sql k t' = ((404, Error ''Not found''), t') \<and>
            delete_item_sql k t' = ((404, Error ''Not found''), t'))"
  unfolding Let_def delete_item_once[OF assms(1)] delete_item_sql_present[OF assms(2)]
  by (simp add: delete_item_absent get_item_absent get_item_sql_def delete_item_sql_def
      sql_select_deleted) (simp add: sql_delete_def)

lemma delete_then_not_found_example:
  "length (filter (\<lambda>x. item_id x = ''1762000000000'') [drill]) = 1 \<and>
   1 \<in> item_id ` set (rows one_row) \<and>
   delete_item ''1762000000000'' [drill] =
     ((200, Message ''Item with id 1762000000000 deleted''), []) \<and>
   get_item ''1762000000000'' (snd (delete_item ''1762000000000'' [drill])) =
     ((404, Error ''Not found''), []) \<and>
   delete_item ''1762000000000'' (snd (delete_item ''1762000000000'' [drill])) =
     ((404, Error ''Item with id 1762000000000 not found''), []) \<and>
   rows (snd (delete_item_sql 1 one_row)) = [] \<and>
   fst (get_item_sql 1 (snd (delete_item_sql 1 one_row))) = (404, Error ''Not found'') \<and>
   fst (delete_item_sql 1 (snd (delete_item_sql 1 one_row))) = (404, Error ''Not found'')"
proof -
  have h1: "length (filter (\<lambda>x. item_id x = ''1762000000000'') [drill]) = 1"
    by (simp add: drill_def)
  have h2: "1 \<in> item_id ` set (rows one_row)"
    by (simp add: one_row_def drill_row_def)
  from delete_then_not_found[OF h1 h2] h1 h2 show ?thesis
    by (simp add: Let_def delete_item_def get_item_def loadDB_def saveDB_def splice1_def
        drill_def one_row_def drill_row_def delete_item_sql_def get_item_sql_def
        sql_select_def sql_delete_def)
qed

text \<open>
  C5. After Delete of an existing item's id, GetByID of the id must fail with 404, and
  so must a second Delete. The file backend's Delete removes the first record with the
  id, and GetByID returns the first record with the id. Two Creates served at the same
  clock reading store two records under one id (see C1): after Delete of that id the
  second record is still found, and a second Delete succeeds.
\<close>

theorem delete_item_leaves_duplicate:
  "snd (register 1762000000000 (Some ''Saw'') None (Some ''a3f1'')
          (snd (register 1762000000000 (Some ''Drill'') (Some ''cordless'') None []))) =
     [drill, saw] \<and>
   fst (delete_item ''1762000000000'' [drill, saw]) =
     (200, Message ''Item with id 1762000000000 deleted'') \<and>
   get_item ''1762000000000'' (snd (delete_item ''1762000000000'' [drill, saw])) =
     ((200, Item saw), [saw]) \<and>
   fst (delete_item ''1762000000000'' (snd (delete_item ''1762000000000'' [drill, saw]))) =
     (200, Message ''Item with id 1762000000000 deleted'')"
  by (simp add: delete_item_def get_item_def loadDB_def saveDB_def splice1_def
      drill_def saw_def register_def trim_def strip.simps white_space_def toString.simps digit_def Let_def)

subsection \<open>List\<close>

lemma register_all_valid:
  "list_all valid_name reqs \<Longrightarrow>
     \<exists>its. fst (register_all reqs fl) = map (\<lambda>it. (201, Item it)) its \<and>
           length its = length reqs \<and> snd (register_all reqs fl) = fl @ its"
proof (induction reqs arbitrary: fl)
  case Nil
  then show ?case by simp
next
  case (Cons req reqs)
  obtain now name descr file_name where req: "req = (now, name, descr, file_name)"
    by (cases req) auto
  from Cons.prems req obtain n where n: "name = Some n" "trim n \<noteq> []"
    by (cases name) auto
  define it where "it = \<lparr>item_id = toString now, inventory_name = n,
                        description = or_else descr [], photo = file_name\<rparr>"
  from Cons.prems have "list_all valid_name reqs" by simp
  from Cons.IH[OF this, of "fl @ [it]"] obtain its where
    its: "fst (register_all reqs (fl @ [it])) = map (\<lambda>it. (201, Item it)) its"
         "length its = length reqs"
         "snd (register_all reqs (fl @ [it])) = fl @ [it] @ its"
    by auto
  have "fst (register_all (req # reqs) fl) = map (\<lambda>it. (201, Item it)) (it # its)"
    using its by (simp add: req n register_valid[OF n(2)] it_def case_prod_beta)
  moreover have "snd (register_all (req # reqs) fl) = fl @ (it # its)"
    using its by (simp add: req n register_valid[OF n(2)] it_def case_prod_beta)
  moreover have "length (it # its) = length (req # reqs)"
    using its by simp
  ultimately show ?case by blast
qed

lemma register_all_sql_valid:
  "list_all valid_name reqs \<Longrightarrow>
     \<exists>inss. fst (register_all_sql reqs t) = map (\<lambda>i. (201, Inserted i)) inss \<and>
            length inss = length reqs \<and>
            rows (snd (register_all_sql reqs t)) = rows t @ map stored_row inss"
proof (induction reqs arbitrary: t)
  case Nil
  then show ?case by simp
next
  case (Cons req reqs)
  obtain now name descr file_name where req: "req = (now, name, descr, file_name)"
    by (cases req) auto
  from Cons.prems req obtain n where n: "name = Some n" "trim n \<noteq> []"
    by (cases name) auto
  then have ne: "n \<noteq> []" using trim_Nil by auto
  define ins where "ins = \<lparr>ins_id = next_id t, ins_inventory_name = n,
                           ins_description = descr, ins_photo = file_name\<rparr>"
  define t1 where "t1 = \<lparr>rows = rows t @ [stored_row ins], next_id = Suc (next_id t)\<rparr>"
  have step: "register_sql name descr file_name t = ((201, Inserted ins), t1)"
    by (simp add: n register_sql_truthy[OF ne] ins_def t1_def stored_row_def)
  from Cons.prems have "list_all valid_name reqs" by simp
  from Cons.IH[OF this, of t1] obtain inss where
    inss: "fst (register_all_sql reqs t1) = map (\<lambda>i. (201, Inserted i)) inss"
          "length inss = length reqs"
          "rows (snd (register_all_sql reqs t1)) = rows t1 @ map stored_row inss"
    by auto
  have "fst (register_all_sql (req # reqs) t) = map (\<lambda>i. (201, Inserted i)) (ins # inss)"
    using inss by (simp add: req step case_prod_beta)
  moreover have "rows (snd (register_all_sql (req # reqs) t)) =
                   rows t @ map stored_row (ins # inss)"
    using inss by (simp add: req step t1_def case_prod_beta)
  moreover have "length (ins # inss) = length (req # reqs)"
    using inss by simp
  ultimately show ?case by blast
qed

text \<open>
  C8. A run of N Creates with valid names on an empty collection answers 201 with N
  items, and List then returns exactly these items, in the order of their creation.
  In the MySQL backend List returns, in that order, the rows stored for the N objects
  the Creates answered with. On an empty collection List answers 200 with the empty
  sequence.
\<close>

theorem list_returns_created_in_order:
  assumes "list_all valid_name reqs"
  shows "(\<exists>its. fst (register_all reqs []) = map (\<lambda>it. (201, Item it)) its \<and>
               length its = length reqs \<and>
               fst (get_inventory (snd (register_all reqs []))) = (200, Items its))
       \<and> (\<exists>inss. fst (register_all_sql reqs \<lparr>rows = [], next_id = k\<rparr>) =
                    map (\<lambda>i. (201, Inserted i)) inss \<and>
               length inss = length reqs \<and>
               fst (get_inventory_sql (snd (register_all_sql reqs \<lparr>rows = [], next_id = k\<rparr>))) =
                 (200, Rows (map stored_row inss)))
       \<and> fst (get_inventory []) = (200, Items [])
       \<and> fst (get_inventory_sql \<lparr>rows = [], next_id = k\<rparr>) = (200, Rows [])"
proof -
  from register_all_valid[OF assms, of "[]"] have a:
    "\<exists>its. fst (register_all reqs []) = map (\<lambda>it. (201, Item it)) its \<and>
               length its = length reqs \<and>
               fst (get_inventory (snd (register_all reqs []))) = (200, Items its)"
    by (auto simp: get_inventory_def loadDB_def)
  from register_all_sql_valid[OF assms, of "\<lparr>rows = [], next_id = k\<rparr>"] have b:
    "\<exists>inss. fst (register_all_sql reqs \<lparr>rows = [], next_id = k\<rparr>) =
                    map (\<lambda>i. (201, Inserted i)) inss \<and>
               length inss = length reqs \<and>
               fst (get_inventory_sql (snd (register_all_sql reqs \<lparr>rows = [], next_id = k\<rparr>))) =
                 (200, Rows (map stored_row inss))"
    by (auto simp: get_inventory_sql_def sql_select_all_def)
  have c: "fst (get_inventory []) = (200, Items [])"
    by (simp add: get_inventory_def loadDB_def)
  have d: "fst (get_inventory_sql \<lparr>rows = [], next_id = k\<rparr>) = (200, Rows [])"
    by (simp add: get_inventory_sql_def sql_select_all_def)
  from a b c d show ?thesis by blast
qed

theorem list_returns_created_in_order_witness:
  "list_all valid_name two_requests \<and>
   (\<exists>its. fst (register_all two_requests []) = map (\<lambda>it. (201, Item it)) its \<and>
          length its = length two_requests \<and>
          fst (get_inventory (snd (register_all two_requests []))) = (200, Items its)) \<and>
   (\<exists>inss. fst (register_all_sql two_requests \<lparr>rows = [], next_id = 1\<rparr>) =
             map (\<lambda>i. (201, Inserted i)) inss \<and>
          length inss = length two_requests \<and>
          fst (get_inventory_sql (snd (register_all_sql two_requests \<lparr>rows = [], next_id = 1\<rparr>))) =
            (200, Rows (map stored_row inss))) \<and>
   fst (get_inventory (snd (register_all two_requests []))) =
     (200, Items [\<lparr>item_id = ''1762000000000'', inventory_name = ''Drill'',
                   description = '''', photo = None\<rparr>,
                  \<lparr>item_id = ''1762000000001'', inventory_name = ''Saw'',
                   description = ''hand saw'', photo = Some ''a3f1''\<rparr>])"
proof -
  have h: "list_all valid_name two_requests"
    by (simp add: two_requests_def trim_def strip.simps white_space_def)
  have e: "fst (get_inventory (snd (register_all two_requests []))) =
     (200, Items [\<lparr>item_id = ''1762000000000'', inventory_name = ''Drill'',
                   description = '''', photo = None\<rparr>,
                  \<lparr>item_id = ''1762000000001'', inventory_name = ''Saw'',
                   description = ''hand saw'', photo = Some ''a3f1''\<rparr>])"
    by (simp add: two_requests_def get_inventory_def register_def loadDB_def saveDB_def
        trim_def strip.simps white_space_def toString.simps digit_def Let_def)
  from list_returns_created_in_order[OF h, of 1] h e show ?thesis
    by blast
qed

subsection \<open>Photo\<close>

text \<open>
  C9. \<^verbatim>\<open>GET /inventory/:id/photo\<close> answers 404 exactly when no item has the id, or the
  first item with the id has no photo reference (\<^verbatim>\<open>null\<close>, or the empty string, which
  is falsy as well), or the photo directory has no file of the referenced name; in every
  other case it answers 200 with the bytes of that file. Both backends.
\<close>

theorem get_photo_status:
  "(fst (get_photo i dir fl) = (200, File bytes) \<longleftrightarrow>
      (\<exists>it p. find (\<lambda>x. item_id x = i) fl = Some it \<and> photo it = Some p \<and> p \<noteq> [] \<and>
              dir p = Some bytes))
   \<and> (fst (fst (get_photo i dir fl)) = 404 \<longleftrightarrow>
        (find (\<lambda>x. item_id x = i) fl = None \<or>
         (\<exists>it. find (\<lambda>x. item_id x = i) fl = Some it \<and>
               (photo it = None \<or> photo it = Some [] \<or>
                (\<exists>p. photo it = Some p \<and> dir p = None)))))
   \<and> (fst (fst (get_photo i dir fl)) = 404 \<or>
        (\<exists>b. fst (get_photo i dir fl) = (200, File b)))
   \<and> (fst (get_photo_sql k dir t) = (200, File bytes) \<longleftrightarrow>
        (\<exists>r rs p. sql_select k t = r # rs \<and> photo r = Some p \<and> p \<noteq> [] \<and>
                  dir p = Some bytes))
   \<and> (fst (fst (get_photo_sql k dir t)) = 404 \<longleftrightarrow>
        (sql_select k t = [] \<or>
         (\<exists>r rs. sql_select k t = r # rs \<and>
               (photo r = None \<or> photo r = Some [] \<or>
                (\<exists>p. photo r = Some p \<and> dir p = None)))))
   \<and> (fst (fst (get_photo_sql k dir t)) = 404 \<or>
        (\<exists>b. fst (get_photo_sql k dir t) = (200, File b)))"
  by (auto simp: get_photo_def get_photo_sql_def loadDB_def
      split: option.splits list.splits if_splits)

theorem get_photo_status_witness:
  "fst (get_photo ''1762000000000'' one_photo [saw]) = (200, File ''JFIF'') \<and>
   fst (get_photo ''1762000000000'' one_photo [drill]) = (404, Text ''Not found'') \<and>
   fst (get_photo ''1762000000001'' one_photo [saw]) = (404, Text ''Not found'') \<and>
   fst (get_photo ''1762000000000'' (\<lambda>f. None) [saw]) = (404, Text ''Photo not found'')"
  using get_photo_status[of "''1762000000000''" one_photo "[saw]" "''JFIF''"]
  by (simp add: get_photo_def loadDB_def one_photo_def saw_def drill_def)

subsection \<open>Search\<close>

text \<open>
  C10. \<^verbatim>\<open>POST /search\<close> leaves the stored collection as it was, for every id and every
  \<^verbatim>\<open>includePhoto\<close>. When the item is found and \<^verbatim>\<open>includePhoto\<close> is set, the response
  carries the item with the photo path appended to its description, and the stored
  item, read back with \<^verbatim>\<open>GET /inventory/:id\<close>, still has the description it had.
\<close>

theorem search_leaves_store_unchanged:
  "snd (search i includePhoto fl) = fl \<and>
   (case i of
      None \<Rightarrow> fst (search i includePhoto fl) = (404, Text ''Not found'')
    | Some j \<Rightarrow>
        (case find (\<lambda>x. item_id x = j) fl of
           None \<Rightarrow> fst (search i includePhoto fl) = (404, Text ''Not found'')
         | Some it \<Rightarrow>
             fst (search i includePhoto fl) =
               (200, Item (if truthy includePhoto
                           then it\<lparr>description := description it @ photo_note j\<rparr> else it)) \<and>
             get_item j (snd (search i includePhoto fl)) = ((200, Item it), fl)))"
  by (simp add: search_def get_item_def loadDB_def Let_def split: option.splits)

end
